theory Spec2Isabelle
  imports Complex_Main
begin

section \<open>Data model\<close>

text \<open>
  The service keeps one row per payment intent in a Prisma table
  (\<^verbatim>\<open>prisma.paymentIntent\<close>).  The status column holds one of five string
  literals; they are the constructors below.  The specification's names are
  SOURCE_SETTLED for \<open>SOL_SETTLED\<close>, TARGET_SETTLING for \<open>BASE_SETTLING\<close> and
  COMPLETED for \<open>BASE_SETTLED\<close>.
\<close>

datatype status = PENDING | SOL_SETTLED | BASE_SETTLING | BASE_SETTLED | EXPIRED

text \<open>A \<^verbatim>\<open>Date\<close> is its number of milliseconds since the epoch.\<close>

type_synonym date = int

record intent =
  intent_id :: string
  amount :: string
  merchant_recipient :: string
  payer_chain :: string
  target_chain :: string
  status :: status
  created_at :: date
  expires_at :: "date option"
  payer_wallet :: "string option"
  sol_settle_proof :: "string option"
  sol_tx_hash :: "string option"
  sol_settled_at :: "date option"
  base_tx_hash :: "string option"
  base_settle_proof :: "string option"
  base_settled_at :: "date option"
  completed_at :: "date option"

text \<open>
  A JavaScript \<^verbatim>\<open>number\<close>: a finite binary64 value, given by the rational it
  denotes, or one of the three special values.
\<close>

datatype number = Num rat | NaN | PosInfinity | NegInfinity

text \<open>
  Library functions the service calls on amounts.  Their code is not part of the
  repository, so the model takes them as parameters:
  \<^verbatim>\<open>Number.prototype.toString\<close>, \<^verbatim>\<open>parseFloat\<close> and viem's
  \<^verbatim>\<open>parseUnits\<close>, which returns a bigint or throws.
\<close>

record jslib =
  num_toString :: "number \<Rightarrow> string"
  parseFloat :: "string \<Rightarrow> number"
  parseUnits :: "string \<Rightarrow> nat \<Rightarrow> string + int"

text \<open>Values read through \<^verbatim>\<open>configService.get\<close>, defaults applied.\<close>

record config =
  solana_network :: string
  base_network :: string

subsection \<open>Errors\<close>

text \<open>
  What a \<^verbatim>\<open>throw\<close> carries: an \<^verbatim>\<open>Error\<close> with its message; a
  \<^verbatim>\<open>TypeError\<close> for reading the named property of \<^verbatim>\<open>null\<close>; the two
  failures of the table's client (no row for an update, a second row for an id); and the
  executor's \<^verbatim>\<open>Insufficient USDC balance\<close> error, kept as the two values its
  message prints: the balance (here in the asset's smallest unit) and the requested
  amount.
\<close>

datatype js_error =
    Error string
  | TypeError string
  | RecordNotFound
  | UniqueConstraintFailed
  | Insufficient_USDC_balance int number

text \<open>
  The exceptions that leave the service, with what their message reports.
  \<open>Uncaught\<close> is an error no handler of the service catches.
\<close>

datatype reason =
    Not_in_PENDING_status string status
  | Invalid_settlement_proof js_error
  | Solana_payment_not_settled string status
  | Validation_failed

datatype exception =
    NotFoundException string
  | BadRequestException reason
  | InternalServerErrorException js_error
  | Uncaught js_error

subsection \<open>The outside world\<close>

text \<open>
  What the facilitator's \<^verbatim>\<open>/verify\<close> endpoint does with one request: the
  \<^verbatim>\<open>fetch\<close> promise rejects (transport failure), or a response arrives with a
  status code and a body.  Reading the body as JSON fails with a message, or gives
  \<^verbatim>\<open>null\<close>, or gives a value of which the code reads the two properties
  \<^verbatim>\<open>message\<close> (a string, if any) and \<^verbatim>\<open>valid\<close> (by truthiness).
\<close>

datatype body = Unparseable string | Json_null | Parsed "string option" bool

datatype fetch_outcome = Fetch_rejects string | Response nat body

text \<open>
  What the chain does for one run of the executor: the account derived from the
  configured key, the \<^verbatim>\<open>balanceOf\<close> read, the \<^verbatim>\<open>transfer\<close> write (given
  recipient and value) and the wait for the receipt (given the transaction hash).
  Each may throw.
\<close>

record chain_oracle =
  account_reply :: "string + string"
  balance_reply :: "string + nat"
  write_reply :: "string \<Rightarrow> int \<Rightarrow> string + string"
  receipt_reply :: "string \<Rightarrow> string + unit"

record payment_request =
  req_intentId :: string
  req_amount :: number
  req_recipientAddress :: string

record payment_result =
  res_txHash :: string
  res_proof :: "string option"

text \<open>
  The state the operations act on: the table, the proofs sent to the verifier, the
  requests handed to \<^verbatim>\<open>executePayment\<close>, the transfers handed to
  \<^verbatim>\<open>writeContract\<close>, and the callbacks queued with \<^verbatim>\<open>setImmediate\<close>.
\<close>

record world =
  store :: "string \<rightharpoonup> intent"
  verify_calls :: "string list"
  exec_calls :: "payment_request list"
  transfers :: "(string \<times> int) list"
  immediates :: "string list"

section \<open>The repository (Prisma)\<close>

definition findUnique :: "(string \<rightharpoonup> intent) \<Rightarrow> string \<Rightarrow> intent option" where
  "findUnique s k = s k"

definition db_create :: "(string \<rightharpoonup> intent) \<Rightarrow> intent \<Rightarrow> js_error + (string \<rightharpoonup> intent)" where
  "db_create s row =
     (case s (intent_id row) of
        Some _ \<Rightarrow> Inl UniqueConstraintFailed
      | None \<Rightarrow> Inr (s(intent_id row \<mapsto> row)))"

text \<open>
  \<^verbatim>\<open>update({ where: { intent_id }, data })\<close>: the row is selected by its id alone
  and \<open>f\<close> assigns the columns named in \<^verbatim>\<open>data\<close> to the row as stored at that
  moment.
\<close>

definition db_update ::
  "(string \<rightharpoonup> intent) \<Rightarrow> string \<Rightarrow> (intent \<Rightarrow> intent) \<Rightarrow> js_error + (string \<rightharpoonup> intent)" where
  "db_update s k f =
     (case s k of
        None \<Rightarrow> Inl RecordNotFound
      | Some row \<Rightarrow> Inr (s(k \<mapsto> f row)))"

text \<open>JavaScript truthiness of a nullable string: null and the empty string are falsy.\<close>

definition truthy :: "string option \<Rightarrow> bool" where
  "truthy x = (case x of None \<Rightarrow> False | Some t \<Rightarrow> t \<noteq> [])"

section \<open>JavaScript numbers\<close>

text \<open>
  \<^verbatim>\<open>Number(b)\<close> of a bigint \<open>b\<close> is the binary64 value nearest to \<open>b\<close>, ties to
  the even significand; a magnitude that rounds to \<open>2 ^ 1024\<close> or more is infinite.
\<close>

fun bitlen :: "nat \<Rightarrow> nat" where
  "bitlen n = (if n = 0 then 0 else Suc (bitlen (n div 2)))"

declare bitlen.simps [simp del]

definition round53 :: "nat \<Rightarrow> nat" where
  "round53 n =
     (if bitlen n \<le> 53 then n
      else
        let e = bitlen n - 53; q = n div 2 ^ e; r = n mod 2 ^ e; h = 2 ^ (e - 1)
        in if h < r \<or> (r = h \<and> odd q) then (q + 1) * 2 ^ e else q * 2 ^ e)"

definition Number_of_bigint :: "int \<Rightarrow> number" where
  "Number_of_bigint b =
     (let m = round53 (nat \<bar>b\<bar>)
      in if 2 ^ 1024 \<le> m then (if b < 0 then NegInfinity else PosInfinity)
         else Num (of_int (if b < 0 then - int m else int m)))"

text \<open>The relational operator \<^verbatim>\<open><\<close> on two numbers.\<close>

fun num_less :: "number \<Rightarrow> number \<Rightarrow> bool" where
  "num_less (Num a) (Num b) = (a < b)"
| "num_less NaN _ = False"
| "num_less _ NaN = False"
| "num_less NegInfinity NegInfinity = False"
| "num_less NegInfinity _ = True"
| "num_less _ NegInfinity = False"
| "num_less PosInfinity _ = False"
| "num_less _ PosInfinity = True"

text \<open>Decimal digits of a status code, for the template string of the verifier's error.\<close>

fun show_nat :: "nat \<Rightarrow> string" where
  "show_nat n = (if n < 10 then [''0123456789'' ! n] else show_nat (n div 10) @ [''0123456789'' ! (n mod 10)])"

declare show_nat.simps [simp del]

section \<open>Chain settlement executor: \<^verbatim>\<open>BasePaymentService.executePayment\<close>\<close>

text \<open>
  The result is what the promise settles to, together with the transfers handed to
  \<^verbatim>\<open>walletClient.writeContract\<close> during the run.  The \<^verbatim>\<open>catch\<close> block logs
  and rethrows, so every error leaves as it was thrown.  The configured network only
  selects the chain and the token contract the calls go to; the oracle gives the
  replies of that chain.  The steps keep the order of the source: the account, the
  amount in millionths of a USDC, the balance, the comparison of the two as
  numbers, the transfer, the wait for its receipt.
\<close>

definition executePayment ::
  "jslib \<Rightarrow> chain_oracle \<Rightarrow> payment_request \<Rightarrow> (js_error + payment_result) \<times> (string \<times> int) list" where
  "executePayment lib ch request =
     (case account_reply ch of
        Inl m \<Rightarrow> (Inl (Error m), [])
      | Inr account \<Rightarrow>
     (case parseUnits lib (num_toString lib (req_amount request)) 6 of
        Inl m \<Rightarrow> (Inl (Error m), [])
      | Inr amountInUsdc \<Rightarrow>
     (case balance_reply ch of
        Inl m \<Rightarrow> (Inl (Error m), [])
      | Inr balance \<Rightarrow>
          if num_less (Number_of_bigint (int balance)) (Number_of_bigint amountInUsdc)
          then (Inl (Insufficient_USDC_balance (int balance) (req_amount request)), [])
          else
            (case write_reply ch (req_recipientAddress request) amountInUsdc of
               Inl m \<Rightarrow> (Inl (Error m), [(req_recipientAddress request, amountInUsdc)])
             | Inr h \<Rightarrow>
            (case receipt_reply ch h of
               Inl m \<Rightarrow> (Inl (Error m), [(req_recipientAddress request, amountInUsdc)])
             | Inr _ \<Rightarrow>
                 (Inr \<lparr>res_txHash = h, res_proof = Some (''base_settlement_'' @ h)\<rparr>,
                  [(req_recipientAddress request, amountInUsdc)]))))))"

section \<open>Proof verification client: \<^verbatim>\<open>verifyX402Proof\<close>\<close>

definition response_ok :: "nat \<Rightarrow> bool" where
  "response_ok st = (200 \<le> st \<and> st \<le> 299)"

definition verifyX402Proof :: "fetch_outcome \<Rightarrow> js_error + unit" where
  "verifyX402Proof outcome =
     (case outcome of
        Fetch_rejects m \<Rightarrow> Inl (Error m)
      | Response st b \<Rightarrow>
          if \<not> response_ok st then
            (case b of
               Unparseable _ \<Rightarrow> Inl (Error (''Verification failed with status '' @ show_nat st))
             | Json_null \<Rightarrow> Inl (TypeError ''message'')
             | Parsed msg _ \<Rightarrow>
                 (case msg of
                    None \<Rightarrow> Inl (Error (''Verification failed with status '' @ show_nat st))
                  | Some m \<Rightarrow>
                      if m = [] then Inl (Error (''Verification failed with status '' @ show_nat st))
                      else Inl (Error m)))
          else
            (case b of
               Unparseable m \<Rightarrow> Inl (Error m)
             | Json_null \<Rightarrow> Inl (TypeError ''valid'')
             | Parsed _ valid \<Rightarrow>
                 if \<not> valid then Inl (Error ''Proof verification failed'') else Inr ()))"

section \<open>Settlement orchestrator: \<^verbatim>\<open>PaymentIntentsService\<close>\<close>

subsection \<open>Request validation for \<^verbatim>\<open>CreateIntentDto\<close>\<close>

text \<open>
  The request body after the global \<^verbatim>\<open>ValidationPipe\<close> has transformed it: each
  declared property is present or not, and \<open>body_extra\<close> lists the properties the
  class does not declare (\<^verbatim>\<open>forbidNonWhitelisted\<close> rejects them).
\<close>

record create_body =
  body_amount :: "number option"
  body_merchant_recipient :: "string option"
  body_extra :: "string list"

record CreateIntentDto =
  dto_amount :: number
  dto_merchant_recipient :: string

text \<open>\<^verbatim>\<open>@IsNumber()\<close> with default options: NaN and the infinities are rejected.\<close>

fun IsNumber :: "number \<Rightarrow> bool" where
  "IsNumber (Num _) = True"
| "IsNumber _ = False"

text \<open>
  \<^verbatim>\<open>@Min(0.01)\<close>.  The literal \<^verbatim>\<open>0.01\<close> is the binary64 value
  \<open>5764607523034235 / 2 ^ 59\<close>.
\<close>

definition lit_0_01 :: rat where
  "lit_0_01 = 5764607523034235 / 2 ^ 59"

fun Min_0_01 :: "number \<Rightarrow> bool" where
  "Min_0_01 (Num q) = (lit_0_01 \<le> q)"
| "Min_0_01 PosInfinity = True"
| "Min_0_01 _ = False"

text \<open>\<^verbatim>\<open>@Matches(/^0x[a-fA-F0-9]{40}$/)\<close>.\<close>

definition is_hex :: "char \<Rightarrow> bool" where
  "is_hex c = (c \<in> set ''0123456789abcdefABCDEF'')"

definition Matches_evm_address :: "string \<Rightarrow> bool" where
  "Matches_evm_address a = (take 2 a = ''0x'' \<and> length a = 42 \<and> list_all is_hex (drop 2 a))"

definition validate_CreateIntentDto :: "create_body \<Rightarrow> CreateIntentDto option" where
  "validate_CreateIntentDto b =
     (case (body_amount b, body_merchant_recipient b) of
        (Some a, Some r) \<Rightarrow>
          if body_extra b = [] \<and> IsNumber a \<and> Min_0_01 a \<and> Matches_evm_address r
          then Some \<lparr>dto_amount = a, dto_merchant_recipient = r\<rparr>
          else None
      | _ \<Rightarrow> None)"

subsection \<open>\<^verbatim>\<open>createIntent\<close>\<close>

record created_view =
  cv_intent_id :: string
  cv_amount :: string
  cv_merchant_recipient :: string
  cv_status :: status
  cv_created_at :: date
  cv_expires_at :: "date option"

text \<open>
  \<open>uuid\<close> is the value of \<^verbatim>\<open>uuidv4()\<close>, \<open>now\<close> the reading of \<^verbatim>\<open>Date.now()\<close>
  and \<open>db_now\<close> the time the table's default gives \<^verbatim>\<open>created_at\<close>.  Columns the
  \<^verbatim>\<open>data\<close> object does not name are null.
\<close>

definition createIntent ::
  "jslib \<Rightarrow> string \<Rightarrow> date \<Rightarrow> date \<Rightarrow> CreateIntentDto \<Rightarrow> world \<Rightarrow> (exception + created_view) \<times> world" where
  "createIntent lib uuid now db_now createIntentDto w =
     (let intentId = uuid;
          expiresAt = now + 10 * 60 * 1000;
          row = \<lparr>intent_id = intentId,
                 amount = num_toString lib (dto_amount createIntentDto),
                 merchant_recipient = dto_merchant_recipient createIntentDto,
                 payer_chain = ''solana'',
                 target_chain = ''base'',
                 status = PENDING,
                 created_at = db_now,
                 expires_at = Some expiresAt,
                 payer_wallet = None, sol_settle_proof = None, sol_tx_hash = None,
                 sol_settled_at = None, base_tx_hash = None, base_settle_proof = None,
                 base_settled_at = None, completed_at = None\<rparr>
      in case db_create (store w) row of
           Inl e \<Rightarrow> (Inl (Uncaught e), w)
         | Inr s' \<Rightarrow>
             (Inr \<lparr>cv_intent_id = intent_id row, cv_amount = amount row,
                   cv_merchant_recipient = merchant_recipient row, cv_status = status row,
                   cv_created_at = created_at row, cv_expires_at = expires_at row\<rparr>,
              w\<lparr>store := s'\<rparr>))"

text \<open>The controller's route: the pipe validates the body, then the service runs.\<close>

definition post_intents ::
  "jslib \<Rightarrow> string \<Rightarrow> date \<Rightarrow> date \<Rightarrow> create_body \<Rightarrow> world \<Rightarrow> (exception + created_view) \<times> world" where
  "post_intents lib uuid now db_now b w =
     (case validate_CreateIntentDto b of
        None \<Rightarrow> (Inl (BadRequestException Validation_failed), w)
      | Some dto \<Rightarrow> createIntent lib uuid now db_now dto w)"

subsection \<open>\<^verbatim>\<open>getIntent\<close>\<close>

record intent_view =
  iv_intent_id :: string
  iv_amount :: string
  iv_merchant_recipient :: string
  iv_payer_wallet :: "string option"
  iv_status :: status
  iv_sol_tx_hash :: "string option"
  iv_base_tx_hash :: "string option"
  iv_created_at :: date
  iv_sol_settled_at :: "date option"
  iv_base_settled_at :: "date option"
  iv_completed_at :: "date option"
  iv_expires_at :: "date option"

definition view_of :: "intent \<Rightarrow> intent_view" where
  "view_of i =
     \<lparr>iv_intent_id = intent_id i, iv_amount = amount i,
      iv_merchant_recipient = merchant_recipient i, iv_payer_wallet = payer_wallet i,
      iv_status = status i, iv_sol_tx_hash = sol_tx_hash i, iv_base_tx_hash = base_tx_hash i,
      iv_created_at = created_at i, iv_sol_settled_at = sol_settled_at i,
      iv_base_settled_at = base_settled_at i, iv_completed_at = completed_at i,
      iv_expires_at = expires_at i\<rparr>"

text \<open>
  \<^verbatim>\<open>intent.expires_at && new Date() > intent.expires_at\<close>: a null column never
  expires, and the comparison is strict.
\<close>

definition is_past :: "date \<Rightarrow> date option \<Rightarrow> bool" where
  "is_past now e = (case e of None \<Rightarrow> False | Some t \<Rightarrow> t < now)"

definition getIntent :: "date \<Rightarrow> string \<Rightarrow> world \<Rightarrow> (exception + intent_view option) \<times> world" where
  "getIntent now intentId w =
     (case findUnique (store w) intentId of
        None \<Rightarrow> (Inr None, w)
      | Some i \<Rightarrow>
          if is_past now (expires_at i) \<and> status i = PENDING then
            (case db_update (store w) intentId (\<lambda>row. row\<lparr>status := EXPIRED\<rparr>) of
               Inl e \<Rightarrow> (Inl (Uncaught e), w)
             | Inr s' \<Rightarrow> (Inr (Some (view_of (i\<lparr>status := EXPIRED\<rparr>))), w\<lparr>store := s'\<rparr>))
          else (Inr (Some (view_of i)), w))"

subsection \<open>\<^verbatim>\<open>submitSolanaProof\<close>\<close>

record SolanaProofDto =
  settle_proof :: string
  tx_hash :: string
  dto_payer_wallet :: "string option"

record proof_ack =
  pa_success :: bool
  pa_message :: string
  pa_intent_id :: string
  pa_status :: status

text \<open>
  \<open>facilitator\<close> maps the proof posted to the verifier to what comes back.  The
  proof is recorded in \<open>verify_calls\<close> when \<^verbatim>\<open>verifyX402Proof\<close> is called.  On
  success the trigger of the Base payment is queued with \<^verbatim>\<open>setImmediate\<close>.
\<close>

definition submitSolanaProof ::
  "date \<Rightarrow> string \<Rightarrow> SolanaProofDto \<Rightarrow> (string \<Rightarrow> fetch_outcome) \<Rightarrow> world \<Rightarrow> (exception + proof_ack) \<times> world" where
  "submitSolanaProof now intentId solanaProofDto facilitator w =
     (case findUnique (store w) intentId of
        None \<Rightarrow> (Inl (NotFoundException intentId), w)
      | Some i \<Rightarrow>
          if status i \<noteq> PENDING
          then (Inl (BadRequestException (Not_in_PENDING_status intentId (status i))), w)
          else
            let w1 = w\<lparr>verify_calls := verify_calls w @ [settle_proof solanaProofDto]\<rparr>
            in case verifyX402Proof (facilitator (settle_proof solanaProofDto)) of
                 Inl e \<Rightarrow> (Inl (BadRequestException (Invalid_settlement_proof e)), w1)
               | Inr _ \<Rightarrow>
                   (case db_update (store w1) intentId
                           (\<lambda>row. row\<lparr>status := SOL_SETTLED,
                                       sol_settle_proof := Some (settle_proof solanaProofDto),
                                       sol_tx_hash := Some (tx_hash solanaProofDto),
                                       payer_wallet :=
                                         (if truthy (dto_payer_wallet solanaProofDto)
                                          then dto_payer_wallet solanaProofDto else None),
                                       sol_settled_at := Some now\<rparr>) of
                      Inl e \<Rightarrow> (Inl (Uncaught e), w1)
                    | Inr s' \<Rightarrow>
                        (Inr \<lparr>pa_success = True, pa_message = ''Solana payment verified'',
                              pa_intent_id = intent_id i, pa_status = SOL_SETTLED\<rparr>,
                         w1\<lparr>store := s', immediates := immediates w1 @ [intentId]\<rparr>)))"

subsection \<open>\<^verbatim>\<open>triggerBasePayment\<close>\<close>

record trigger_ack =
  ta_success :: bool
  ta_message :: string
  ta_base_tx_hash :: "string option"
  ta_status :: status

text \<open>
  The call of the executor inside the \<^verbatim>\<open>try\<close> block, on the row read at the
  start: the request is logged in \<open>exec_calls\<close> and the transfers the executor
  submitted are appended to \<open>transfers\<close>.
\<close>

definition request_for :: "jslib \<Rightarrow> intent \<Rightarrow> payment_request" where
  "request_for lib i =
     \<lparr>req_intentId = intent_id i,
      req_amount = parseFloat lib (amount i),
      req_recipientAddress = merchant_recipient i\<rparr>"

definition trigger_execute ::
  "jslib \<Rightarrow> chain_oracle \<Rightarrow> intent \<Rightarrow> world \<Rightarrow> (js_error + payment_result) \<times> world" where
  "trigger_execute lib ch i w =
     (case executePayment lib ch (request_for lib i) of
        (r, ts) \<Rightarrow>
          (r, w\<lparr>exec_calls := exec_calls w @ [request_for lib i], transfers := transfers w @ ts\<rparr>))"

text \<open>The \<^verbatim>\<open>catch\<close> block: roll the status back and raise the failure.\<close>

definition trigger_rollback ::
  "string \<Rightarrow> js_error \<Rightarrow> world \<Rightarrow> (exception + trigger_ack) \<times> world" where
  "trigger_rollback intentId e w =
     (case db_update (store w) intentId (\<lambda>row. row\<lparr>status := SOL_SETTLED\<rparr>) of
        Inl e' \<Rightarrow> (Inl (Uncaught e'), w)
      | Inr s' \<Rightarrow> (Inl (InternalServerErrorException e), w\<lparr>store := s'\<rparr>))"

text \<open>
  What follows the executor: on its success the final update, still inside the
  \<^verbatim>\<open>try\<close> block; on any failure the \<^verbatim>\<open>catch\<close> block.
\<close>

definition trigger_finish ::
  "date \<Rightarrow> string \<Rightarrow> (js_error + payment_result) \<Rightarrow> world \<Rightarrow> (exception + trigger_ack) \<times> world" where
  "trigger_finish now intentId r w =
     (case r of
        Inl e \<Rightarrow> trigger_rollback intentId e w
      | Inr result \<Rightarrow>
          (case db_update (store w) intentId
                  (\<lambda>row. row\<lparr>status := BASE_SETTLED,
                              base_tx_hash := Some (res_txHash result),
                              base_settle_proof :=
                                (if truthy (res_proof result) then res_proof result
                                 else Some ''base_settlement_confirmed''),
                              base_settled_at := Some now,
                              completed_at := Some now\<rparr>) of
             Inl e \<Rightarrow> trigger_rollback intentId e w
           | Inr s' \<Rightarrow>
               (Inr \<lparr>ta_success = True, ta_message = ''Base payment completed'',
                     ta_base_tx_hash = Some (res_txHash result), ta_status = BASE_SETTLED\<rparr>,
                w\<lparr>store := s'\<rparr>)))"

text \<open>
  The status check on the row that was read, followed by the update that sets
  \<open>BASE_SETTLING\<close>.  The update names the row by its id only.
\<close>

definition trigger_lock ::
  "string \<Rightarrow> intent option \<Rightarrow> world \<Rightarrow> (exception + intent) \<times> world" where
  "trigger_lock intentId found w =
     (case found of
        None \<Rightarrow> (Inl (NotFoundException intentId), w)
      | Some i \<Rightarrow>
          if status i \<noteq> SOL_SETTLED
          then (Inl (BadRequestException (Solana_payment_not_settled intentId (status i))), w)
          else
            (case db_update (store w) intentId (\<lambda>row. row\<lparr>status := BASE_SETTLING\<rparr>) of
               Inl e \<Rightarrow> (Inl (Uncaught e), w)
             | Inr s' \<Rightarrow> (Inr i, w\<lparr>store := s'\<rparr>)))"

definition triggerBasePayment ::
  "jslib \<Rightarrow> date \<Rightarrow> string \<Rightarrow> chain_oracle \<Rightarrow> world \<Rightarrow> (exception + trigger_ack) \<times> world" where
  "triggerBasePayment lib now intentId ch w =
     (case trigger_lock intentId (findUnique (store w) intentId) w of
        (Inl ex, w1) \<Rightarrow> (Inl ex, w1)
      | (Inr i, w1) \<Rightarrow>
          (case trigger_execute lib ch i w1 of
             (r, w2) \<Rightarrow> trigger_finish now intentId r w2))"

subsection \<open>\<^verbatim>\<open>getReceipt\<close>\<close>

record leg =
  leg_tx_hash :: "string option"
  leg_settle_proof :: "string option"
  leg_settled_at :: "date option"
  leg_explorer_url :: string

record receipt =
  rc_intent_id :: string
  rc_amount :: string
  rc_merchant_recipient :: string
  rc_payer_wallet :: "string option"
  rc_status :: status
  rc_solana_payment :: "leg option"
  rc_base_payment :: "leg option"
  rc_created_at :: date
  rc_completed_at :: "date option"
  rc_expires_at :: "date option"

definition receipt_of :: "config \<Rightarrow> intent \<Rightarrow> receipt" where
  "receipt_of cfg i =
     (let solanaExplorerBase =
            (if solana_network cfg = ''mainnet-beta'' then ''https://solscan.io''
             else ''https://solscan.io?cluster=devnet'');
          baseExplorerBase =
            (if base_network cfg = ''base'' then ''https://basescan.org''
             else ''https://sepolia.basescan.org'')
      in \<lparr>rc_intent_id = intent_id i, rc_amount = amount i,
           rc_merchant_recipient = merchant_recipient i, rc_payer_wallet = payer_wallet i,
           rc_status = status i,
           rc_solana_payment =
             (case sol_tx_hash i of
                None \<Rightarrow> None
              | Some h \<Rightarrow>
                  if h = [] then None
                  else Some \<lparr>leg_tx_hash = sol_tx_hash i, leg_settle_proof = sol_settle_proof i,
                             leg_settled_at = sol_settled_at i,
                             leg_explorer_url = solanaExplorerBase @ ''/tx/'' @ h\<rparr>),
           rc_base_payment =
             (case base_tx_hash i of
                None \<Rightarrow> None
              | Some h \<Rightarrow>
                  if h = [] then None
                  else Some \<lparr>leg_tx_hash = base_tx_hash i, leg_settle_proof = base_settle_proof i,
                             leg_settled_at = base_settled_at i,
                             leg_explorer_url = baseExplorerBase @ ''/tx/'' @ h\<rparr>),
           rc_created_at = created_at i, rc_completed_at = completed_at i,
           rc_expires_at = expires_at i\<rparr>)"

definition getReceipt :: "config \<Rightarrow> string \<Rightarrow> world \<Rightarrow> receipt option \<times> world" where
  "getReceipt cfg intentId w =
     (case findUnique (store w) intentId of
        None \<Rightarrow> (None, w)
      | Some i \<Rightarrow> (Some (receipt_of cfg i), w))"

subsection \<open>Requests and the callback queue\<close>

text \<open>
  One request to the service, with the readings of the clock and the replies of the
  outside world it will meet.  \<open>RunImmediate\<close> runs the oldest callback queued by
  \<^verbatim>\<open>setImmediate\<close>: it triggers the Base payment and only logs a failure.
\<close>

datatype op =
    CreateIntent string date date create_body
  | GetIntent date string
  | SubmitSolanaProof date string SolanaProofDto "string \<Rightarrow> fetch_outcome"
  | TriggerBasePayment date string chain_oracle
  | GetReceipt string
  | RunImmediate date chain_oracle

fun exec_op :: "jslib \<Rightarrow> config \<Rightarrow> op \<Rightarrow> world \<Rightarrow> world" where
  "exec_op lib cfg (CreateIntent uuid now db_now b) w = snd (post_intents lib uuid now db_now b w)"
| "exec_op lib cfg (GetIntent now k) w = snd (getIntent now k w)"
| "exec_op lib cfg (SubmitSolanaProof now k dto fac) w = snd (submitSolanaProof now k dto fac w)"
| "exec_op lib cfg (TriggerBasePayment now k ch) w = snd (triggerBasePayment lib now k ch w)"
| "exec_op lib cfg (GetReceipt k) w = snd (getReceipt cfg k w)"
| "exec_op lib cfg (RunImmediate now ch) w =
     (case immediates w of
        [] \<Rightarrow> w
      | k # rest \<Rightarrow> snd (triggerBasePayment lib now k ch (w\<lparr>immediates := rest\<rparr>)))"

fun exec_ops :: "jslib \<Rightarrow> config \<Rightarrow> op list \<Rightarrow> world \<Rightarrow> world" where
  "exec_ops lib cfg [] w = w"
| "exec_ops lib cfg (x # xs) w = exec_ops lib cfg xs (exec_op lib cfg x w)"

definition empty_world :: world where
  "empty_world = \<lparr>store = Map.empty, verify_calls = [], exec_calls = [], transfers = [], immediates = []\<rparr>"

subsection \<open>Overlapping calls of \<^verbatim>\<open>triggerBasePayment\<close>\<close>

text \<open>
  An \<^verbatim>\<open>async\<close> function runs without interruption between two \<^verbatim>\<open>await\<close>s and
  may be overtaken by other calls at each of them.  A call of
  \<^verbatim>\<open>triggerBasePayment\<close> is therefore a sequence of steps: the read of the row;
  the status check on the row read, with the update to \<open>BASE_SETTLING\<close>; the
  executor; the final update or the rollback.  The control point of a call records how
  far it is and what its local variables hold.
\<close>

datatype trig_pc =
    At_find
  | At_lock "intent option"
  | At_execute intent
  | At_finish "js_error + payment_result"
  | Returned "exception + trigger_ack"

definition trig_step ::
  "jslib \<Rightarrow> date \<Rightarrow> string \<Rightarrow> chain_oracle \<Rightarrow> trig_pc \<Rightarrow> world \<Rightarrow> trig_pc \<times> world" where
  "trig_step lib now intentId ch pc w =
     (case pc of
        At_find \<Rightarrow> (At_lock (findUnique (store w) intentId), w)
      | At_lock found \<Rightarrow>
          (case trigger_lock intentId found w of
             (Inl ex, w1) \<Rightarrow> (Returned (Inl ex), w1)
           | (Inr i, w1) \<Rightarrow> (At_execute i, w1))
      | At_execute i \<Rightarrow>
          (case trigger_execute lib ch i w of (r, w2) \<Rightarrow> (At_finish r, w2))
      | At_finish r \<Rightarrow>
          (case trigger_finish now intentId r w of (res, w3) \<Rightarrow> (Returned res, w3))
      | Returned res \<Rightarrow> (Returned res, w))"

text \<open>
  Several calls for the same intent, all with the same clock reading and chain
  replies.  A schedule names, step by step, the call that runs next.
\<close>

fun run_schedule ::
  "jslib \<Rightarrow> date \<Rightarrow> string \<Rightarrow> chain_oracle \<Rightarrow> nat list \<Rightarrow> trig_pc list \<times> world \<Rightarrow> trig_pc list \<times> world" where
  "run_schedule lib now intentId ch [] st = st"
| "run_schedule lib now intentId ch (n # ns) (pcs, w) =
     (if n < length pcs
      then (case trig_step lib now intentId ch (pcs ! n) w of
              (pc', w') \<Rightarrow> run_schedule lib now intentId ch ns (pcs[n := pc'], w'))
      else run_schedule lib now intentId ch ns (pcs, w))"

section \<open>Notions used in the statements\<close>

text \<open>The columns written when a row is created and never afterwards.\<close>

definition same_creation :: "intent \<Rightarrow> intent \<Rightarrow> bool" where
  "same_creation r r' =
     (intent_id r' = intent_id r \<and> amount r' = amount r \<and>
      merchant_recipient r' = merchant_recipient r \<and> payer_chain r' = payer_chain r \<and>
      target_chain r' = target_chain r \<and> created_at r' = created_at r \<and>
      expires_at r' = expires_at r)"

definition chains_fixed :: "world \<Rightarrow> bool" where
  "chains_fixed w =
     (\<forall>k i. store w k = Some i \<longrightarrow> payer_chain i = ''solana'' \<and> target_chain i = ''base'')"

definition created_row :: "jslib \<Rightarrow> string \<Rightarrow> date \<Rightarrow> date \<Rightarrow> number \<Rightarrow> string \<Rightarrow> intent" where
  "created_row lib uuid now db_now a r =
     \<lparr>intent_id = uuid, amount = num_toString lib a, merchant_recipient = r,
      payer_chain = ''solana'', target_chain = ''base'', status = PENDING,
      created_at = db_now, expires_at = Some (now + 600000), payer_wallet = None,
      sol_settle_proof = None, sol_tx_hash = None, sol_settled_at = None,
      base_tx_hash = None, base_settle_proof = None, base_settled_at = None,
      completed_at = None\<rparr>"

definition acceptable :: "create_body \<Rightarrow> bool" where
  "acceptable b =
     (\<exists>q r. body_amount b = Some (Num q) \<and> lit_0_01 \<le> q \<and>
            body_merchant_recipient b = Some r \<and> Matches_evm_address r \<and> body_extra b = [])"

section \<open>Example values\<close>

text \<open>
  The library functions at the two amounts the examples use: \<^verbatim>\<open>0.05\<close> and
  \<^verbatim>\<open>9007199254.740993\<close>, with the binary64 values nearest to them.
\<close>

definition num_0_05 :: number where
  "num_0_05 = Num (3602879701896397 / 2 ^ 56)"

definition num_big :: number where
  "num_big = Num (2361183241434823 / 2 ^ 18)"

definition demo_lib :: jslib where
  "demo_lib =
     \<lparr>num_toString = (\<lambda>x. if x = num_0_05 then ''0.05''
                           else if x = num_big then ''9007199254.740993'' else ''NaN''),
      parseFloat = (\<lambda>t. if t = ''0.05'' then num_0_05
                         else if t = ''9007199254.740993'' then num_big else NaN),
      parseUnits = (\<lambda>t d. if t = ''0.05'' \<and> d = 6 then Inr 50000
                           else if t = ''9007199254.740993'' \<and> d = 6 then Inr 9007199254740993
                           else Inl ''InvalidDecimalNumberError'')\<rparr>"

definition merchant :: string where
  "merchant = ''0x742d35Cc6634C0532925a3b844Bc9e7595f0bEb0''"

definition pending_intent :: intent where
  "pending_intent =
     \<lparr>intent_id = ''id-1'', amount = ''0.05'', merchant_recipient = merchant,
      payer_chain = ''solana'', target_chain = ''base'', status = PENDING,
      created_at = 1000, expires_at = Some 601000, payer_wallet = None,
      sol_settle_proof = None, sol_tx_hash = None, sol_settled_at = None,
      base_tx_hash = None, base_settle_proof = None, base_settled_at = None,
      completed_at = None\<rparr>"

definition settled_intent :: intent where
  "settled_intent =
     pending_intent\<lparr>status := SOL_SETTLED, sol_settle_proof := Some ''proof-1'',
       sol_tx_hash := Some ''S1'', payer_wallet := Some ''payer-1'', sol_settled_at := Some 2000\<rparr>"



definition world_of :: "intent \<Rightarrow> world" where
  "world_of i = empty_world\<lparr>store := [intent_id i \<mapsto> i]\<rparr>"

definition chain_funded :: chain_oracle where
  "chain_funded =
     \<lparr>account_reply = Inr ''0xproxy'', balance_reply = Inr 1000000,
      write_reply = (\<lambda>_ _. Inr ''0xfeed''), receipt_reply = (\<lambda>_. Inr ())\<rparr>"

definition chain_underfunded :: chain_oracle where
  "chain_underfunded =
     \<lparr>account_reply = Inr ''0xproxy'', balance_reply = Inr 10000,
      write_reply = (\<lambda>_ _. Inl ''execution reverted''), receipt_reply = (\<lambda>_. Inl ''timeout'')\<rparr>"

definition chain_edge :: chain_oracle where
  "chain_edge =
     \<lparr>account_reply = Inr ''0xproxy'', balance_reply = Inr 9007199254740992,
      write_reply = (\<lambda>_ _. Inl ''execution reverted''), receipt_reply = (\<lambda>_. Inl ''timeout'')\<rparr>"

definition demo_proof :: SolanaProofDto where
  "demo_proof = \<lparr>settle_proof = ''proof-1'', tx_hash = ''S1'', dto_payer_wallet = Some ''payer-1''\<rparr>"

definition demo_config :: config where
  "demo_config = \<lparr>solana_network = ''solana-devnet'', base_network = ''base-sepolia''\<rparr>"

definition demo_body :: create_body where
  "demo_body = \<lparr>body_amount = Some num_0_05, body_merchant_recipient = Some merchant, body_extra = []\<rparr>"

definition small_body :: create_body where
  "small_body = \<lparr>body_amount = Some (Num (1 / 256)), body_merchant_recipient = Some merchant, body_extra = []\<rparr>"

definition demo_ack :: trigger_ack where
  "demo_ack = \<lparr>ta_success = True, ta_message = ''Base payment completed'',
               ta_base_tx_hash = Some ''0xfeed'', ta_status = BASE_SETTLED\<rparr>"

section \<open>Auxiliary facts\<close>

subsection \<open>Rounding of bigints\<close>

lemma bitlen_le_iff: "bitlen n \<le> k \<longleftrightarrow> n < 2 ^ k"
proof (induction k arbitrary: n)
  case 0
  show ?case by (subst bitlen.simps) simp
next
  case (Suc k)
  have "bitlen n \<le> Suc k \<longleftrightarrow> n = 0 \<or> bitlen (n div 2) \<le> k"
    by (subst bitlen.simps) simp
  also have "\<dots> \<longleftrightarrow> n = 0 \<or> n div 2 < 2 ^ k"
    using Suc.IH by simp
  also have "\<dots> \<longleftrightarrow> n < 2 ^ Suc k"
    by auto
  finally show ?case .
qed







subsection \<open>Repository\<close>

lemma db_update_Some: "s k = Some r \<Longrightarrow> db_update s k f = Inr (s(k \<mapsto> f r))"
  by (simp add: db_update_def)

lemma db_update_None: "s k = None \<Longrightarrow> db_update s k f = Inl RecordNotFound"
  by (simp add: db_update_def)

subsection \<open>Executor\<close>



text \<open>The executor's proof string is never empty.\<close>

lemma executePayment_proof:
  "executePayment lib ch request = (Inr result, ts) \<Longrightarrow>
   res_proof result = Some (''base_settlement_'' @ res_txHash result) \<and> truthy (res_proof result)"
  by (auto simp: executePayment_def truthy_def split: sum.splits if_splits)

text \<open>
  The value of every transfer the executor submits is what \<^verbatim>\<open>parseUnits\<close> makes of
  the decimal string that \<^verbatim>\<open>toString\<close> prints for the request's amount, and the
  request's amount is what \<^verbatim>\<open>parseFloat\<close> reads from the stored string.
\<close>

lemma transfer_value_path:
  "(rcp, v) \<in> set (snd (executePayment lib ch (request_for lib i))) \<Longrightarrow>
   rcp = merchant_recipient i \<and>
   parseUnits lib (num_toString lib (parseFloat lib (amount i))) 6 = Inr v"
  by (auto simp: executePayment_def request_for_def split: sum.splits if_splits)

subsection \<open>Verifier\<close>

lemma verify_unavailable:
  "verifyX402Proof (Fetch_rejects m) = Inl (Error m)"
  "\<not> response_ok st \<Longrightarrow> \<exists>e. verifyX402Proof (Response st b) = Inl e"
  "response_ok st \<Longrightarrow> verifyX402Proof (Response st (Parsed msg False)) = Inl (Error ''Proof verification failed'')"
  "response_ok st \<Longrightarrow> verifyX402Proof (Response st (Parsed msg True)) = Inr ()"
  by (auto simp: verifyX402Proof_def split: body.splits option.splits)

subsection \<open>\<^verbatim>\<open>createIntent\<close>\<close>

lemma validate_iff: "validate_CreateIntentDto b \<noteq> None \<longleftrightarrow> acceptable b"
proof (cases "body_amount b")
  case None
  then show ?thesis by (simp add: validate_CreateIntentDto_def acceptable_def)
next
  case (Some a)
  show ?thesis
  proof (cases "body_merchant_recipient b")
    case None
    then show ?thesis using Some by (simp add: validate_CreateIntentDto_def acceptable_def)
  next
    case (Some r)
    with \<open>body_amount b = Some a\<close> show ?thesis
      by (cases a) (auto simp: validate_CreateIntentDto_def acceptable_def)
  qed
qed

lemma post_intents_fails_iff:
  "fst (post_intents lib uuid now db_now b w) = Inl (BadRequestException Validation_failed)
     \<longleftrightarrow> \<not> acceptable b"
  using validate_iff [of b]
  by (auto simp: post_intents_def createIntent_def db_create_def Let_def split: option.splits)

lemma post_intents_creates:
  assumes "body_amount b = Some (Num q)" and "lit_0_01 \<le> q"
    and "body_merchant_recipient b = Some r" and "Matches_evm_address r"
    and "body_extra b = []" and "store w uuid = None"
  shows "post_intents lib uuid now db_now b w =
           (Inr \<lparr>cv_intent_id = uuid, cv_amount = num_toString lib (Num q),
                 cv_merchant_recipient = r, cv_status = PENDING, cv_created_at = db_now,
                 cv_expires_at = Some (now + 600000)\<rparr>,
            w\<lparr>store := (store w)(uuid \<mapsto> created_row lib uuid now db_now (Num q) r)\<rparr>)"
  using assms
  by (simp add: post_intents_def validate_CreateIntentDto_def createIntent_def db_create_def
      created_row_def Let_def)

subsection \<open>\<^verbatim>\<open>getIntent\<close>\<close>

lemma getIntent_before:
  assumes "store w k = Some i" and "\<not> (is_past now (expires_at i) \<and> status i = PENDING)"
  shows "getIntent now k w = (Inr (Some (view_of i)), w)"
  using assms by (auto simp: getIntent_def findUnique_def)

lemma getIntent_after:
  assumes "store w k = Some i" and "is_past now (expires_at i)" and "status i = PENDING"
  shows "getIntent now k w =
           (Inr (Some (view_of (i\<lparr>status := EXPIRED\<rparr>))), w\<lparr>store := (store w)(k \<mapsto> i\<lparr>status := EXPIRED\<rparr>)\<rparr>)"
  using assms by (simp add: getIntent_def findUnique_def db_update_def)

subsection \<open>\<^verbatim>\<open>submitSolanaProof\<close>\<close>

lemma submitSolanaProof_rejected:
  assumes "store w k = Some i" and "status i = PENDING"
    and "verifyX402Proof (fac (settle_proof dto)) = Inl e"
  shows "submitSolanaProof now k dto fac w =
           (Inl (BadRequestException (Invalid_settlement_proof e)),
            w\<lparr>verify_calls := verify_calls w @ [settle_proof dto]\<rparr>)"
  using assms by (simp add: submitSolanaProof_def findUnique_def Let_def)

lemma submitSolanaProof_accepted:
  assumes "store w k = Some i" and "status i = PENDING"
    and "verifyX402Proof (fac (settle_proof dto)) = Inr u"
  shows "submitSolanaProof now k dto fac w =
           (Inr \<lparr>pa_success = True, pa_message = ''Solana payment verified'',
                 pa_intent_id = intent_id i, pa_status = SOL_SETTLED\<rparr>,
            w\<lparr>store := (store w)(k \<mapsto> i\<lparr>status := SOL_SETTLED,
                    sol_settle_proof := Some (settle_proof dto),
                    sol_tx_hash := Some (tx_hash dto),
                    payer_wallet := (if truthy (dto_payer_wallet dto) then dto_payer_wallet dto else None),
                    sol_settled_at := Some now\<rparr>),
              verify_calls := verify_calls w @ [settle_proof dto],
              immediates := immediates w @ [k]\<rparr>)"
  using assms by (simp add: submitSolanaProof_def findUnique_def Let_def db_update_def)

lemma submitSolanaProof_not_pending:
  assumes "store w k = Some i" and "status i \<noteq> PENDING"
  shows "submitSolanaProof now k dto fac w =
           (Inl (BadRequestException (Not_in_PENDING_status k (status i))), w)"
  using assms by (simp add: submitSolanaProof_def findUnique_def)

lemma submitSolanaProof_not_found:
  assumes "store w k = None"
  shows "submitSolanaProof now k dto fac w = (Inl (NotFoundException k), w)"
  using assms by (simp add: submitSolanaProof_def findUnique_def)

subsection \<open>Steps of \<^verbatim>\<open>triggerBasePayment\<close>\<close>

lemma trigger_lock_settled:
  "store w k = Some i \<Longrightarrow> status i = SOL_SETTLED \<Longrightarrow>
   trigger_lock k (Some i) w = (Inr i, w\<lparr>store := (store w)(k \<mapsto> i\<lparr>status := BASE_SETTLING\<rparr>)\<rparr>)"
  by (simp add: trigger_lock_def db_update_Some)

lemma trigger_lock_other:
  "status i \<noteq> SOL_SETTLED \<Longrightarrow>
   trigger_lock k (Some i) w = (Inl (BadRequestException (Solana_payment_not_settled k (status i))), w)"
  by (simp add: trigger_lock_def)

lemma trigger_rollback_row:
  "store w k = Some r \<Longrightarrow>
   trigger_rollback k e w =
     (Inl (InternalServerErrorException e), w\<lparr>store := (store w)(k \<mapsto> r\<lparr>status := SOL_SETTLED\<rparr>)\<rparr>)"
  by (simp add: trigger_rollback_def db_update_Some)

lemma trigger_finish_failure:
  "store w k = Some r \<Longrightarrow>
   trigger_finish now k (Inl e) w =
     (Inl (InternalServerErrorException e), w\<lparr>store := (store w)(k \<mapsto> r\<lparr>status := SOL_SETTLED\<rparr>)\<rparr>)"
  by (simp add: trigger_finish_def trigger_rollback_row)

lemma trigger_finish_success:
  "store w k = Some r \<Longrightarrow> truthy (res_proof result) \<Longrightarrow>
   trigger_finish now k (Inr result) w =
     (Inr \<lparr>ta_success = True, ta_message = ''Base payment completed'',
           ta_base_tx_hash = Some (res_txHash result), ta_status = BASE_SETTLED\<rparr>,
      w\<lparr>store := (store w)(k \<mapsto> r\<lparr>status := BASE_SETTLED,
            base_tx_hash := Some (res_txHash result),
            base_settle_proof := res_proof result,
            base_settled_at := Some now, completed_at := Some now\<rparr>)\<rparr>)"
  by (simp add: trigger_finish_def db_update_Some)

text \<open>
  A call that is not overtaken: if the executor fails, the table ends as it began.
\<close>

lemma triggerBasePayment_failure:
  assumes "store w k = Some i" and "status i = SOL_SETTLED"
    and "executePayment lib ch (request_for lib i) = (Inl e, ts)"
  shows "triggerBasePayment lib now k ch w =
           (Inl (InternalServerErrorException e),
            w\<lparr>exec_calls := exec_calls w @ [request_for lib i], transfers := transfers w @ ts\<rparr>)"
proof -
  have unchanged: "i\<lparr>status := SOL_SETTLED\<rparr> = i" using assms(2) by simp
  have same: "(store w)(k \<mapsto> i) = store w" using assms(1) by (simp add: map_upd_triv)
  show ?thesis
    using assms
    by (simp add: triggerBasePayment_def findUnique_def trigger_lock_settled
        trigger_execute_def trigger_finish_def trigger_rollback_def db_update_def unchanged same)
qed

lemma triggerBasePayment_success:
  assumes "store w k = Some i" and "status i = SOL_SETTLED"
    and "executePayment lib ch (request_for lib i) = (Inr result, ts)"
  shows "triggerBasePayment lib now k ch w =
           (Inr \<lparr>ta_success = True, ta_message = ''Base payment completed'',
                 ta_base_tx_hash = Some (res_txHash result), ta_status = BASE_SETTLED\<rparr>,
            w\<lparr>store := (store w)(k \<mapsto> i\<lparr>status := BASE_SETTLED,
                  base_tx_hash := Some (res_txHash result),
                  base_settle_proof := res_proof result,
                  base_settled_at := Some now, completed_at := Some now\<rparr>),
              exec_calls := exec_calls w @ [request_for lib i], transfers := transfers w @ ts\<rparr>)"
proof -
  have "truthy (res_proof result)"
    using executePayment_proof [OF assms(3)] by blast
  then show ?thesis
    using assms
    by (simp add: triggerBasePayment_def findUnique_def trigger_lock_settled
        trigger_execute_def trigger_finish_def db_update_def)
qed

lemma triggerBasePayment_not_settled:
  assumes "store w k = Some i" and "status i \<noteq> SOL_SETTLED"
  shows "triggerBasePayment lib now k ch w =
           (Inl (BadRequestException (Solana_payment_not_settled k (status i))), w)"
  using assms by (simp add: triggerBasePayment_def findUnique_def trigger_lock_other)

lemma triggerBasePayment_not_found:
  assumes "store w k = None"
  shows "triggerBasePayment lib now k ch w = (Inl (NotFoundException k), w)"
  using assms by (simp add: triggerBasePayment_def findUnique_def trigger_lock_def)

text \<open>A call that no other call overtakes takes its four steps in a row.\<close>

lemma trig_steps_sequential:
  "run_schedule lib now k ch [0, 0, 0, 0] ([At_find], w) =
     ([Returned (fst (triggerBasePayment lib now k ch w))], snd (triggerBasePayment lib now k ch w))"
  by (simp add: trig_step_def triggerBasePayment_def split: prod.splits sum.splits)

text \<open>Two calls one after the other: the second is refused and the executor runs once.\<close>

lemma sequential_triggers_execute_once:
  assumes "store w k = Some i" and "status i = SOL_SETTLED"
    and "executePayment lib ch (request_for lib i) = (Inr result, ts)"
  shows "run_schedule lib now k ch [0, 0, 0, 0, 1, 1, 1, 1] ([At_find, At_find], w) =
     ([Returned (Inr \<lparr>ta_success = True, ta_message = ''Base payment completed'',
                       ta_base_tx_hash = Some (res_txHash result), ta_status = BASE_SETTLED\<rparr>),
       Returned (Inl (BadRequestException (Solana_payment_not_settled k BASE_SETTLED)))],
      w\<lparr>store := (store w)(k \<mapsto> i\<lparr>status := BASE_SETTLED,
              base_tx_hash := Some (res_txHash result),
              base_settle_proof := res_proof result,
              base_settled_at := Some now, completed_at := Some now\<rparr>),
         exec_calls := exec_calls w @ [request_for lib i],
         transfers := transfers w @ ts\<rparr>)"
proof -
  have "truthy (res_proof result)"
    using executePayment_proof [OF assms(3)] by blast
  then show ?thesis
    using assms
    by (simp add: trig_step_def findUnique_def trigger_lock_def trigger_execute_def
        trigger_finish_def db_update_def)
qed

subsection \<open>What each operation does to one row\<close>

lemma post_intents_effect:
  "store (snd (post_intents lib uuid now db_now b w)) k = store w k \<or>
   (store w k = None \<and>
    (\<exists>row. store (snd (post_intents lib uuid now db_now b w)) k = Some row \<and>
           status row = PENDING \<and> payer_chain row = ''solana'' \<and> target_chain row = ''base''))"
  by (auto simp: post_intents_def createIntent_def db_create_def Let_def
      split: option.splits)

lemma getIntent_effect:
  "store (snd (getIntent now k' w)) k = store w k \<or>
   (\<exists>r. store w k = Some r \<and> status r = PENDING \<and>
        store (snd (getIntent now k' w)) k = Some (r\<lparr>status := EXPIRED\<rparr>))"
  by (auto simp: getIntent_def findUnique_def db_update_def split: option.splits)

lemma submitSolanaProof_effect:
  "store (snd (submitSolanaProof now k' dto fac w)) k = store w k \<or>
   (\<exists>r r'. store w k = Some r \<and> status r = PENDING \<and>
        store (snd (submitSolanaProof now k' dto fac w)) k = Some r' \<and> same_creation r r')"
  by (auto simp: submitSolanaProof_def findUnique_def db_update_def Let_def same_creation_def
      split: option.splits sum.splits)

lemma triggerBasePayment_effect:
  "store (snd (triggerBasePayment lib now k' ch w)) k = store w k \<or>
   (\<exists>r r'. store w k = Some r \<and> status r = SOL_SETTLED \<and>
        store (snd (triggerBasePayment lib now k' ch w)) k = Some r' \<and> same_creation r r')"
proof (cases "store w k'")
  case None
  then show ?thesis by (simp add: triggerBasePayment_not_found)
next
  case (Some i)
  show ?thesis
  proof (cases "status i = SOL_SETTLED")
    case False
    then show ?thesis using Some by (simp add: triggerBasePayment_not_settled)
  next
    case True
    obtain res ts where ex: "executePayment lib ch (request_for lib i) = (res, ts)"
      by (cases "executePayment lib ch (request_for lib i)") 
    show ?thesis
    proof (cases res)
      case (Inl e)
      then show ?thesis
        using triggerBasePayment_failure [OF Some True, of lib ch e ts now] ex by simp
    next
      case (Inr result)
      then show ?thesis
        using triggerBasePayment_success [OF Some True, of lib ch result ts now] ex Some True
        by (cases "k = k'") (simp_all add: same_creation_def)
    qed
  qed
qed

lemma exec_op_effect:
  "store (exec_op lib cfg x w) k = store w k \<or>
   (store w k = None \<and>
    (\<exists>row. store (exec_op lib cfg x w) k = Some row \<and>
           status row = PENDING \<and> payer_chain row = ''solana'' \<and> target_chain row = ''base'')) \<or>
   (\<exists>r r'. store w k = Some r \<and> status r \<noteq> EXPIRED \<and>
        store (exec_op lib cfg x w) k = Some r' \<and> same_creation r r')"
proof (cases x)
  case (CreateIntent uuid now db_now b)
  then show ?thesis using post_intents_effect [of lib uuid now db_now b w k] by auto
next
  case (GetIntent now k')
  then show ?thesis
    using getIntent_effect [of now k' w k] by (auto simp: same_creation_def)
next
  case (SubmitSolanaProof now k' dto fac)
  then show ?thesis using submitSolanaProof_effect [of now k' dto fac w k] by auto
next
  case (TriggerBasePayment now k' ch)
  then show ?thesis using triggerBasePayment_effect [of lib now k' ch w k] by auto
next
  case (GetReceipt k')
  then show ?thesis by (simp add: getReceipt_def split: option.splits)
next
  case (RunImmediate now ch)
  show ?thesis
  proof (cases "immediates w")
    case Nil
    then show ?thesis using RunImmediate by simp
  next
    case (Cons k' rest)
    then show ?thesis
      using RunImmediate triggerBasePayment_effect [of lib now k' ch "w\<lparr>immediates := rest\<rparr>" k]
      by auto
  qed
qed



lemma exec_op_chains_fixed: "chains_fixed w \<Longrightarrow> chains_fixed (exec_op lib cfg x w)"
  unfolding chains_fixed_def
proof (intro allI impI)
  fix k i
  assume inv: "\<forall>k i. store w k = Some i \<longrightarrow> payer_chain i = ''solana'' \<and> target_chain i = ''base''"
    and row: "store (exec_op lib cfg x w) k = Some i"
  show "payer_chain i = ''solana'' \<and> target_chain i = ''base''"
    using exec_op_effect [of lib cfg x w k] inv row
    by (auto simp: same_creation_def)
qed

lemma exec_ops_chains_fixed: "chains_fixed w \<Longrightarrow> chains_fixed (exec_ops lib cfg xs w)"
  by (induction xs arbitrary: w) (simp_all add: exec_op_chains_fixed)

subsection \<open>The example values\<close>

lemmas demo_defs =
  num_0_05_def num_big_def demo_lib_def merchant_def pending_intent_def settled_intent_def
  world_of_def empty_world_def chain_funded_def chain_underfunded_def chain_edge_def




lemma demo_underfunded:
  "executePayment demo_lib chain_underfunded (request_for demo_lib settled_intent) =
     (Inl (Insufficient_USDC_balance 10000 num_0_05), [])"
  by (simp add: executePayment_def request_for_def demo_defs Number_of_bigint_def round53_def bitlen_le_iff)

lemma demo_funded:
  "executePayment demo_lib chain_funded (request_for demo_lib settled_intent) =
     (Inr \<lparr>res_txHash = ''0xfeed'', res_proof = Some ''base_settlement_0xfeed''\<rparr>, [(merchant, 50000)])"
  by (simp add: executePayment_def request_for_def demo_defs Number_of_bigint_def round53_def bitlen_le_iff)

lemma demo_body_valid:
  "validate_CreateIntentDto demo_body = Some \<lparr>dto_amount = num_0_05, dto_merchant_recipient = merchant\<rparr>"
  by (simp add: validate_CreateIntentDto_def demo_body_def num_0_05_def lit_0_01_def
      Matches_evm_address_def is_hex_def merchant_def)

lemma demo_created:
  "post_intents demo_lib ''id-1'' 1000 1000 demo_body empty_world =
     (Inr \<lparr>cv_intent_id = ''id-1'', cv_amount = ''0.05'', cv_merchant_recipient = merchant,
           cv_status = PENDING, cv_created_at = 1000, cv_expires_at = Some 601000\<rparr>,
      world_of pending_intent)"
  by (simp add: post_intents_def demo_body_valid createIntent_def db_create_def Let_def)
     (simp add: demo_lib_def world_of_def pending_intent_def empty_world_def)

section \<open>Overlapping triggers\<close>

text \<open>
  Claim C1.  The transition to \<open>BASE_SETTLING\<close> is a read of the row, a check of the
  status read, and an update that names the row by its id only.  When a second call
  reads the row before the first has written \<open>BASE_SETTLING\<close>, both pass the check:
  for every intent stored as \<open>SOL_SETTLED\<close> and every executor run that succeeds, the
  schedule in which two calls alternate step by step ends with both calls returning
  success, the executor called twice for the same intent and its transfers submitted
  twice.
\<close>

theorem overlapping_triggers_execute_twice:
  assumes "store w k = Some i" and "status i = SOL_SETTLED"
    and "executePayment lib ch (request_for lib i) = (Inr result, ts)"
  shows "run_schedule lib now k ch [0, 1, 0, 1, 0, 1, 0, 1] ([At_find, At_find], w) =
     ([Returned (Inr \<lparr>ta_success = True, ta_message = ''Base payment completed'',
                       ta_base_tx_hash = Some (res_txHash result), ta_status = BASE_SETTLED\<rparr>),
       Returned (Inr \<lparr>ta_success = True, ta_message = ''Base payment completed'',
                       ta_base_tx_hash = Some (res_txHash result), ta_status = BASE_SETTLED\<rparr>)],
      w\<lparr>store := (store w)(k \<mapsto> i\<lparr>status := BASE_SETTLED,
              base_tx_hash := Some (res_txHash result),
              base_settle_proof := res_proof result,
              base_settled_at := Some now, completed_at := Some now\<rparr>),
         exec_calls := exec_calls w @ [request_for lib i, request_for lib i],
         transfers := transfers w @ ts @ ts\<rparr>)"
proof -
  have "truthy (res_proof result)"
    using executePayment_proof [OF assms(3)] by blast
  then show ?thesis
    using assms
    by (simp add: trig_step_def findUnique_def trigger_lock_def trigger_execute_def
        trigger_finish_def db_update_def)
qed

theorem overlapping_triggers_execute_twice_witness:
  "run_schedule demo_lib 3000 ''id-1'' chain_funded [0, 1, 0, 1, 0, 1, 0, 1]
       ([At_find, At_find], world_of settled_intent) =
     ([Returned (Inr demo_ack), Returned (Inr demo_ack)],
      (world_of settled_intent)
        \<lparr>store := [''id-1'' \<mapsto> settled_intent\<lparr>status := BASE_SETTLED, base_tx_hash := Some ''0xfeed'',
              base_settle_proof := Some ''base_settlement_0xfeed'',
              base_settled_at := Some 3000, completed_at := Some 3000\<rparr>],
         exec_calls := [request_for demo_lib settled_intent, request_for demo_lib settled_intent],
         transfers := [(merchant, 50000), (merchant, 50000)]\<rparr>)"
proof -
  have h1: "store (world_of settled_intent) ''id-1'' = Some settled_intent"
    by (simp add: world_of_def settled_intent_def pending_intent_def)
  have h2: "status settled_intent = SOL_SETTLED"
    by (simp add: settled_intent_def)
  have w: "exec_calls (world_of settled_intent) = []" "transfers (world_of settled_intent) = []"
    "store (world_of settled_intent) = [''id-1'' \<mapsto> settled_intent]"
    by (simp_all add: world_of_def empty_world_def settled_intent_def pending_intent_def)
  show ?thesis
    using overlapping_triggers_execute_twice [OF h1 h2 demo_funded, of 3000]
    by (simp add: w demo_ack_def)
qed

section \<open>Proofs after the deadline\<close>

text \<open>
  Claim C2.  \<^verbatim>\<open>submitSolanaProof\<close> checks the stored status only and never looks
  at \<^verbatim>\<open>expires_at\<close>.  For every intent stored as \<open>PENDING\<close> whose deadline has
  passed at the time of the call, a proof the verifier accepts is sent to the verifier
  and accepted by the service: the source-leg columns are written, the status becomes
  \<open>SOL_SETTLED\<close> and the Base payment is queued.
\<close>

theorem proof_accepted_after_expiry:
  assumes "store w k = Some i" and "status i = PENDING"
    and "is_past now (expires_at i)"
    and "verifyX402Proof (fac (settle_proof dto)) = Inr ()"
  shows "submitSolanaProof now k dto fac w =
           (Inr \<lparr>pa_success = True, pa_message = ''Solana payment verified'',
                 pa_intent_id = intent_id i, pa_status = SOL_SETTLED\<rparr>,
            w\<lparr>store := (store w)(k \<mapsto> i\<lparr>status := SOL_SETTLED,
                    sol_settle_proof := Some (settle_proof dto),
                    sol_tx_hash := Some (tx_hash dto),
                    payer_wallet := (if truthy (dto_payer_wallet dto) then dto_payer_wallet dto else None),
                    sol_settled_at := Some now\<rparr>),
              verify_calls := verify_calls w @ [settle_proof dto],
              immediates := immediates w @ [k]\<rparr>)"
  using assms(1,2,4) by (rule submitSolanaProof_accepted)

text \<open>
  An intent created at time 1000 expires at 601000.  At time 700000, not having been
  queried since, it is still stored as \<open>PENDING\<close>: \<^verbatim>\<open>getIntent\<close> at that time
  reports \<open>EXPIRED\<close>, and \<^verbatim>\<open>submitSolanaProof\<close> at that time accepts the proof.
\<close>

theorem proof_accepted_after_expiry_witness:
  "is_past 700000 (expires_at pending_intent) \<and> status pending_intent = PENDING \<and>
   map_option iv_status (projr (fst (getIntent 700000 ''id-1'' (world_of pending_intent)))) = Some EXPIRED \<and>
   submitSolanaProof 700000 ''id-1'' demo_proof (\<lambda>_. Response 200 (Parsed None True))
       (world_of pending_intent) =
     (Inr \<lparr>pa_success = True, pa_message = ''Solana payment verified'',
           pa_intent_id = ''id-1'', pa_status = SOL_SETTLED\<rparr>,
      (world_of pending_intent)
        \<lparr>store := [''id-1'' \<mapsto> pending_intent\<lparr>status := SOL_SETTLED,
              sol_settle_proof := Some ''proof-1'', sol_tx_hash := Some ''S1'',
              payer_wallet := Some ''payer-1'', sol_settled_at := Some 700000\<rparr>],
         verify_calls := [''proof-1''], immediates := [''id-1'']\<rparr>)"
proof -
  have h1: "store (world_of pending_intent) ''id-1'' = Some pending_intent"
    by (simp add: world_of_def pending_intent_def)
  have h2: "status pending_intent = PENDING"
    by (simp add: pending_intent_def)
  have h3: "is_past 700000 (expires_at pending_intent)"
    by (simp add: is_past_def pending_intent_def)
  have h4: "verifyX402Proof ((\<lambda>_. Response 200 (Parsed None True)) (settle_proof demo_proof)) = Inr ()"
    by (simp add: verifyX402Proof_def response_ok_def)
  have g: "map_option iv_status (projr (fst (getIntent 700000 ''id-1'' (world_of pending_intent)))) =
      Some EXPIRED"
    using getIntent_after [OF h1 h3 h2] by (simp add: view_of_def)
  have w: "store (world_of pending_intent) = [''id-1'' \<mapsto> pending_intent]"
    "verify_calls (world_of pending_intent) = []" "immediates (world_of pending_intent) = []"
    "intent_id pending_intent = ''id-1''"
    by (simp_all add: world_of_def empty_world_def pending_intent_def)
  show ?thesis
    using proof_accepted_after_expiry [OF h1 h2 h3 h4] h2 h3 g
    by (simp add: w demo_proof_def truthy_def)
qed

section \<open>Insufficient funds\<close>




section \<open>Expiry\<close>




section \<open>Verifier failures\<close>

text \<open>
  The service has one failure for every way the verification can go wrong.  A
  facilitator that answers 503 with the message \<^verbatim>\<open>Proof verification failed\<close> and
  one that answers 200 with \<^verbatim>\<open>valid: false\<close> lead to the same result: a
  \<^verbatim>\<open>BadRequestException\<close> saying the settlement proof is invalid.
\<close>

theorem verifier_failures_not_distinguished_counterexample:
  "\<not> response_ok 503 \<and> response_ok 200 \<and>
   submitSolanaProof 2000 ''id-1'' demo_proof
       (\<lambda>_. Response 503 (Parsed (Some ''Proof verification failed'') False)) (world_of pending_intent) =
   submitSolanaProof 2000 ''id-1'' demo_proof
       (\<lambda>_. Response 200 (Parsed None False)) (world_of pending_intent) \<and>
   fst (submitSolanaProof 2000 ''id-1'' demo_proof
       (\<lambda>_. Response 200 (Parsed None False)) (world_of pending_intent)) =
     Inl (BadRequestException (Invalid_settlement_proof (Error ''Proof verification failed'')))"
  by (simp add: submitSolanaProof_def findUnique_def verifyX402Proof_def response_ok_def
      world_of_def pending_intent_def empty_world_def demo_proof_def Let_def)

text \<open>
  Claim C6, amended.  For a \<open>PENDING\<close> intent, whenever the verifier is unreachable
  (the request is rejected), replies with a status outside 200..299, or replies with
  \<^verbatim>\<open>valid\<close> false, \<^verbatim>\<open>submitSolanaProof\<close> fails with a
  \<^verbatim>\<open>BadRequestException\<close> whose reason is an invalid settlement proof, carrying the
  message of the underlying error; the three cases differ at most in that message.  In
  all of them the table is unchanged: the intent stays \<open>PENDING\<close> and none of its
  columns is written.
\<close>

theorem verifier_failure_leaves_intent_pending:
  assumes "store w k = Some i" and "status i = PENDING"
    and "w' = w\<lparr>verify_calls := verify_calls w @ [settle_proof dto]\<rparr>"
  shows "(fac (settle_proof dto) = Fetch_rejects m \<longrightarrow>
            submitSolanaProof now k dto fac w =
              (Inl (BadRequestException (Invalid_settlement_proof (Error m))), w')) \<and>
         (fac (settle_proof dto) = Response st b \<and> \<not> response_ok st \<longrightarrow>
            (\<exists>e. submitSolanaProof now k dto fac w =
              (Inl (BadRequestException (Invalid_settlement_proof e)), w'))) \<and>
         (fac (settle_proof dto) = Response st (Parsed msg False) \<and> response_ok st \<longrightarrow>
            submitSolanaProof now k dto fac w =
              (Inl (BadRequestException (Invalid_settlement_proof (Error ''Proof verification failed''))), w')) \<and>
         store w' = store w \<and> store w' k = Some i"
proof (intro conjI impI)
  assume "fac (settle_proof dto) = Fetch_rejects m"
  then have "verifyX402Proof (fac (settle_proof dto)) = Inl (Error m)"
    by (simp add: verify_unavailable)
  then show "submitSolanaProof now k dto fac w =
      (Inl (BadRequestException (Invalid_settlement_proof (Error m))), w')"
    unfolding assms(3) by (rule submitSolanaProof_rejected [OF assms(1,2)])
next
  assume "fac (settle_proof dto) = Response st b \<and> \<not> response_ok st"
  then obtain e where "verifyX402Proof (fac (settle_proof dto)) = Inl e"
    using verify_unavailable(2) [of st b] by auto
  then have "submitSolanaProof now k dto fac w =
      (Inl (BadRequestException (Invalid_settlement_proof e)), w')"
    unfolding assms(3) by (rule submitSolanaProof_rejected [OF assms(1,2)])
  then show "\<exists>e. submitSolanaProof now k dto fac w =
      (Inl (BadRequestException (Invalid_settlement_proof e)), w')" ..
next
  assume "fac (settle_proof dto) = Response st (Parsed msg False) \<and> response_ok st"
  then have "verifyX402Proof (fac (settle_proof dto)) = Inl (Error ''Proof verification failed'')"
    by (simp add: verify_unavailable)
  then show "submitSolanaProof now k dto fac w =
      (Inl (BadRequestException (Invalid_settlement_proof (Error ''Proof verification failed''))), w')"
    unfolding assms(3) by (rule submitSolanaProof_rejected [OF assms(1,2)])
next
  show "store w' = store w" by (simp add: assms(3))
  show "store w' k = Some i" by (simp add: assms(3) assms(1))
qed

theorem verifier_failure_leaves_intent_pending_witness:
  "submitSolanaProof 2000 ''id-1'' demo_proof (\<lambda>_. Fetch_rejects ''fetch failed'') (world_of pending_intent) =
     (Inl (BadRequestException (Invalid_settlement_proof (Error ''fetch failed''))),
      (world_of pending_intent)\<lparr>verify_calls := [''proof-1'']\<rparr>) \<and>
   (\<exists>e. submitSolanaProof 2000 ''id-1'' demo_proof (\<lambda>_. Response 503 (Unparseable ''bad'')) (world_of pending_intent) =
     (Inl (BadRequestException (Invalid_settlement_proof e)),
      (world_of pending_intent)\<lparr>verify_calls := [''proof-1'']\<rparr>)) \<and>
   store ((world_of pending_intent)\<lparr>verify_calls := [''proof-1'']\<rparr>) ''id-1'' = Some pending_intent"
proof -
  have h1: "store (world_of pending_intent) ''id-1'' = Some pending_intent"
    by (simp add: world_of_def pending_intent_def)
  have h2: "status pending_intent = PENDING"
    by (simp add: pending_intent_def)
  have h3: "(world_of pending_intent)\<lparr>verify_calls := [''proof-1'']\<rparr> =
      (world_of pending_intent)\<lparr>verify_calls := verify_calls (world_of pending_intent) @ [settle_proof demo_proof]\<rparr>"
    by (simp add: world_of_def empty_world_def demo_proof_def)
  have h4: "\<not> response_ok 503" by (simp add: response_ok_def)
  show ?thesis
    using verifier_failure_leaves_intent_pending [OF h1 h2 h3,
        of "\<lambda>_. Fetch_rejects ''fetch failed''" "''fetch failed''" 2000 503 "Unparseable ''bad''" None]
      verifier_failure_leaves_intent_pending [OF h1 h2 h3,
        of "\<lambda>_. Response 503 (Unparseable ''bad'')" "''x''" 2000 503 "Unparseable ''bad''" None]
      h4
    by simp
qed

section \<open>Creation\<close>

text \<open>
  An amount of \<open>1/256\<close> (0.00390625) is positive and the recipient is well formed, yet
  the request is refused: the DTO demands at least 0.01.
\<close>

theorem small_amount_rejected_counterexample:
  "(0::rat) < 1 / 256 \<and> Matches_evm_address merchant \<and>
   post_intents demo_lib ''id-2'' 1000 1000 small_body empty_world =
     (Inl (BadRequestException Validation_failed), empty_world)"
  by (simp add: post_intents_def validate_CreateIntentDto_def small_body_def lit_0_01_def
      Matches_evm_address_def is_hex_def merchant_def)

text \<open>
  Claim C7, amended.  For every finite amount of at least 0.01 and every recipient of
  the form \<^verbatim>\<open>0x\<close> plus 40 hexadecimal digits, in a body without undeclared
  properties, and an id not yet in the table, creation succeeds and stores a row with
  status \<open>PENDING\<close>, \<^verbatim>\<open>expires_at\<close> 600000 ms after the clock reading, and every
  leg-specific column null; \<^verbatim>\<open>getIntent\<close> up to that deadline returns the row's
  view, with status \<open>PENDING\<close> and those columns null.  Creation fails with the
  validation \<^verbatim>\<open>BadRequestException\<close> exactly when the body is not of that kind: the
  amount is missing, not finite or below 0.01, the recipient is missing or malformed, or
  there is an undeclared property.
\<close>

theorem create_then_get_pending:
  "(body_amount b = Some (Num q) \<and> lit_0_01 \<le> q \<and> body_merchant_recipient b = Some r \<and>
    Matches_evm_address r \<and> body_extra b = [] \<and> store w uuid = None \<and>
    w' = snd (post_intents lib uuid now db_now b w) \<and> row = created_row lib uuid now db_now (Num q) r
    \<longrightarrow>
      fst (post_intents lib uuid now db_now b w) =
        Inr \<lparr>cv_intent_id = uuid, cv_amount = num_toString lib (Num q),
              cv_merchant_recipient = r, cv_status = PENDING, cv_created_at = db_now,
              cv_expires_at = Some (now + 600000)\<rparr> \<and>
      store w' = (store w)(uuid \<mapsto> row) \<and>
      status row = PENDING \<and> expires_at row = Some (now + 10 * 60 * 1000) \<and>
      payer_wallet row = None \<and> sol_settle_proof row = None \<and> sol_tx_hash row = None \<and>
      sol_settled_at row = None \<and> base_tx_hash row = None \<and> base_settle_proof row = None \<and>
      base_settled_at row = None \<and> completed_at row = None \<and>
      (now' \<le> now + 600000 \<longrightarrow> getIntent now' uuid w' = (Inr (Some (view_of row)), w')) \<and>
      iv_status (view_of row) = PENDING \<and> iv_payer_wallet (view_of row) = None \<and>
      iv_sol_tx_hash (view_of row) = None \<and> iv_base_tx_hash (view_of row) = None \<and>
      iv_sol_settled_at (view_of row) = None \<and> iv_base_settled_at (view_of row) = None \<and>
      iv_completed_at (view_of row) = None) \<and>
   (fst (post_intents lib uuid now db_now b w) = Inl (BadRequestException Validation_failed)
      \<longleftrightarrow> \<not> acceptable b)"
proof (intro conjI impI)
  show "fst (post_intents lib uuid now db_now b w) = Inl (BadRequestException Validation_failed)
      \<longleftrightarrow> \<not> acceptable b"
    by (rule post_intents_fails_iff)
next
  assume h: "body_amount b = Some (Num q) \<and> lit_0_01 \<le> q \<and> body_merchant_recipient b = Some r \<and>
    Matches_evm_address r \<and> body_extra b = [] \<and> store w uuid = None \<and>
    w' = snd (post_intents lib uuid now db_now b w) \<and> row = created_row lib uuid now db_now (Num q) r"
  then have run: "post_intents lib uuid now db_now b w =
           (Inr \<lparr>cv_intent_id = uuid, cv_amount = num_toString lib (Num q),
                 cv_merchant_recipient = r, cv_status = PENDING, cv_created_at = db_now,
                 cv_expires_at = Some (now + 600000)\<rparr>,
            w\<lparr>store := (store w)(uuid \<mapsto> row)\<rparr>)"
    using post_intents_creates [of b q r w uuid lib now db_now] by simp
  have w': "w' = w\<lparr>store := (store w)(uuid \<mapsto> row)\<rparr>" using h by (simp add: run)
  have row: "row = created_row lib uuid now db_now (Num q) r" using h by simp
  show "fst (post_intents lib uuid now db_now b w) =
        Inr \<lparr>cv_intent_id = uuid, cv_amount = num_toString lib (Num q),
              cv_merchant_recipient = r, cv_status = PENDING, cv_created_at = db_now,
              cv_expires_at = Some (now + 600000)\<rparr>"
    by (simp add: run)
  show "store w' = (store w)(uuid \<mapsto> row)" by (simp add: w')
  show "status row = PENDING" "expires_at row = Some (now + 10 * 60 * 1000)"
    "payer_wallet row = None" "sol_settle_proof row = None" "sol_tx_hash row = None"
    "sol_settled_at row = None" "base_tx_hash row = None" "base_settle_proof row = None"
    "base_settled_at row = None" "completed_at row = None"
    by (simp_all add: row created_row_def)
  show "iv_status (view_of row) = PENDING" "iv_payer_wallet (view_of row) = None"
    "iv_sol_tx_hash (view_of row) = None" "iv_base_tx_hash (view_of row) = None"
    "iv_sol_settled_at (view_of row) = None" "iv_base_settled_at (view_of row) = None"
    "iv_completed_at (view_of row) = None"
    by (simp_all add: row created_row_def view_of_def)
  { assume "now' \<le> now + 600000"
    then have "\<not> (is_past now' (expires_at row) \<and> status row = PENDING)"
      by (simp add: row created_row_def is_past_def)
    moreover have "store w' uuid = Some row" by (simp add: w')
    ultimately show "getIntent now' uuid w' = (Inr (Some (view_of row)), w')"
      by (intro getIntent_before) }
qed

theorem create_then_get_pending_witness:
  "fst (post_intents demo_lib ''id-1'' 1000 1000 demo_body empty_world) =
     Inr \<lparr>cv_intent_id = ''id-1'', cv_amount = ''0.05'', cv_merchant_recipient = merchant,
           cv_status = PENDING, cv_created_at = 1000, cv_expires_at = Some 601000\<rparr> \<and>
   getIntent 2000 ''id-1'' (world_of pending_intent) =
     (Inr (Some (view_of pending_intent)), world_of pending_intent) \<and>
   iv_status (view_of pending_intent) = PENDING \<and>
   \<not> acceptable small_body \<and>
   fst (post_intents demo_lib ''id-2'' 1000 1000 small_body empty_world) =
     Inl (BadRequestException Validation_failed)"
proof -
  have h: "body_amount demo_body = Some (Num (3602879701896397 / 2 ^ 56))"
    "lit_0_01 \<le> 3602879701896397 / 2 ^ 56"
    "body_merchant_recipient demo_body = Some merchant" "Matches_evm_address merchant"
    "body_extra demo_body = []" "store empty_world ''id-1'' = None"
    by (simp_all add: demo_body_def num_0_05_def lit_0_01_def Matches_evm_address_def is_hex_def
        merchant_def empty_world_def)
  have w': "snd (post_intents demo_lib ''id-1'' 1000 1000 demo_body empty_world) = world_of pending_intent"
    by (simp add: demo_created)
  have row: "created_row demo_lib ''id-1'' 1000 1000 (Num (3602879701896397 / 2 ^ 56)) merchant =
      pending_intent"
    by (simp add: created_row_def pending_intent_def demo_lib_def num_0_05_def)
  have amt: "num_toString demo_lib (Num (3602879701896397 / 2 ^ 56)) = ''0.05''"
    by (simp add: demo_lib_def num_0_05_def)
  have small: "\<not> acceptable small_body"
    by (simp add: acceptable_def small_body_def lit_0_01_def)
  show ?thesis
    using create_then_get_pending [of demo_body "3602879701896397 / 2 ^ 56" merchant empty_world
        "''id-1''" "world_of pending_intent" demo_lib 1000 1000 pending_intent 2000]
      create_then_get_pending [of small_body 0 merchant empty_world
        "''id-2''" "world_of pending_intent" demo_lib 1000 1000 pending_intent 2000]
      h w' row amt small
    by simp
qed

section \<open>Rollback\<close>

text \<open>
  Claim C8.  When the executor fails during \<^verbatim>\<open>triggerBasePayment\<close>, the call
  fails with \<^verbatim>\<open>InternalServerErrorException\<close> and the row it leaves is the row read
  at the start with the status \<open>SOL_SETTLED\<close>: the source settlement proof, the source
  transaction hash, the payer wallet, the source settlement time and every column set
  at creation are as before, and no other row changes.  The rollback step by itself,
  on whatever row \<open>r\<close> the table holds at that moment, writes \<open>r\<close> back with only the
  status replaced.
\<close>

theorem rollback_changes_only_status:
  "(store w k = Some i \<and> status i = SOL_SETTLED \<and>
      fst (executePayment lib ch (request_for lib i)) = Inl e \<longrightarrow>
      fst (triggerBasePayment lib now k ch w) = Inl (InternalServerErrorException e) \<and>
      store (snd (triggerBasePayment lib now k ch w)) = (store w)(k \<mapsto> i\<lparr>status := SOL_SETTLED\<rparr>))
   \<and>
   (store w2 k = Some r \<longrightarrow>
      fst (trigger_finish now k (Inl e) w2) = Inl (InternalServerErrorException e) \<and>
      store (snd (trigger_finish now k (Inl e) w2)) = (store w2)(k \<mapsto> r\<lparr>status := SOL_SETTLED\<rparr>))"
proof (intro conjI impI)
  assume h: "store w k = Some i \<and> status i = SOL_SETTLED \<and>
      fst (executePayment lib ch (request_for lib i)) = Inl e"
  then obtain ts where ex: "executePayment lib ch (request_for lib i) = (Inl e, ts)"
    by (cases "executePayment lib ch (request_for lib i)") simp
  have run: "triggerBasePayment lib now k ch w =
           (Inl (InternalServerErrorException e),
            w\<lparr>exec_calls := exec_calls w @ [request_for lib i], transfers := transfers w @ ts\<rparr>)"
    using h ex by (intro triggerBasePayment_failure) simp_all
  show "fst (triggerBasePayment lib now k ch w) = Inl (InternalServerErrorException e)"
    by (simp add: run)
  have "i\<lparr>status := SOL_SETTLED\<rparr> = i" using h by simp
  then show "store (snd (triggerBasePayment lib now k ch w)) = (store w)(k \<mapsto> i\<lparr>status := SOL_SETTLED\<rparr>)"
    using h by (simp add: run map_upd_triv)
next
  assume r: "store w2 k = Some r"
  show "fst (trigger_finish now k (Inl e) w2) = Inl (InternalServerErrorException e)"
    by (simp add: trigger_finish_failure [OF r])
  show "store (snd (trigger_finish now k (Inl e) w2)) = (store w2)(k \<mapsto> r\<lparr>status := SOL_SETTLED\<rparr>)"
    by (simp add: trigger_finish_failure [OF r])
qed

theorem rollback_changes_only_status_witness:
  "fst (triggerBasePayment demo_lib 3000 ''id-1'' chain_underfunded (world_of settled_intent)) =
     Inl (InternalServerErrorException (Insufficient_USDC_balance 10000 num_0_05)) \<and>
   store (snd (triggerBasePayment demo_lib 3000 ''id-1'' chain_underfunded (world_of settled_intent))) ''id-1'' =
     Some settled_intent \<and>
   store (snd (trigger_finish 3000 ''id-1'' (Inl (Insufficient_USDC_balance 10000 num_0_05))
       (world_of (settled_intent\<lparr>status := BASE_SETTLING\<rparr>)))) ''id-1'' =
     Some settled_intent \<and>
   sol_settle_proof settled_intent = Some ''proof-1'' \<and> sol_tx_hash settled_intent = Some ''S1'' \<and>
   payer_wallet settled_intent = Some ''payer-1'' \<and> sol_settled_at settled_intent = Some 2000"
proof -
  have h1: "store (world_of settled_intent) ''id-1'' = Some settled_intent"
    by (simp add: world_of_def settled_intent_def pending_intent_def)
  have h2: "status settled_intent = SOL_SETTLED"
    by (simp add: settled_intent_def)
  have h3: "fst (executePayment demo_lib chain_underfunded (request_for demo_lib settled_intent)) =
      Inl (Insufficient_USDC_balance 10000 num_0_05)"
    by (simp add: demo_underfunded)
  have h4: "store (world_of (settled_intent\<lparr>status := BASE_SETTLING\<rparr>)) ''id-1'' =
      Some (settled_intent\<lparr>status := BASE_SETTLING\<rparr>)"
    by (simp add: world_of_def settled_intent_def pending_intent_def)
  have same: "settled_intent\<lparr>status := SOL_SETTLED\<rparr> = settled_intent"
    by (simp add: settled_intent_def)
  have cols: "sol_settle_proof settled_intent = Some ''proof-1''" "sol_tx_hash settled_intent = Some ''S1''"
    "payer_wallet settled_intent = Some ''payer-1''" "sol_settled_at settled_intent = Some 2000"
    by (simp_all add: settled_intent_def)
  show ?thesis
    using rollback_changes_only_status [of "world_of settled_intent" "''id-1''" settled_intent demo_lib
        chain_underfunded "Insufficient_USDC_balance 10000 num_0_05" 3000
        "world_of (settled_intent\<lparr>status := BASE_SETTLING\<rparr>)" "settled_intent\<lparr>status := BASE_SETTLING\<rparr>"]
      h1 h2 h3 h4 cols
    by (simp add: same)
qed

section \<open>Receipts\<close>

text \<open>
  Claim C9.  \<^verbatim>\<open>getReceipt\<close> leaves the state as it found it; a second call
  returns what the first returned; the receipt is a function of the configuration and
  the stored row alone; and a receipt is returned for every stored intent whatever its
  status, with the leg of a chain absent while that chain's transaction hash is null.
\<close>

theorem getReceipt_is_projection:
  "snd (getReceipt cfg k w) = w \<and>
   fst (getReceipt cfg k (snd (getReceipt cfg k w))) = fst (getReceipt cfg k w) \<and>
   fst (getReceipt cfg k w) = map_option (receipt_of cfg) (store w k) \<and>
   exec_op lib cfg (GetReceipt k) w = w \<and>
   (store w k = Some i \<longrightarrow>
      (\<exists>r. fst (getReceipt cfg k w) = Some r \<and> rc_status r = status i \<and>
           (sol_tx_hash i = None \<longrightarrow> rc_solana_payment r = None) \<and>
           (base_tx_hash i = None \<longrightarrow> rc_base_payment r = None)))"
  by (auto simp: getReceipt_def findUnique_def receipt_of_def split: option.splits)

theorem getReceipt_is_projection_witness:
  "fst (getReceipt demo_config ''id-1'' (world_of pending_intent)) =
     Some (receipt_of demo_config pending_intent) \<and>
   rc_status (receipt_of demo_config pending_intent) = PENDING \<and>
   rc_solana_payment (receipt_of demo_config pending_intent) = None \<and>
   rc_base_payment (receipt_of demo_config pending_intent) = None"
proof -
  have h1: "store (world_of pending_intent) ''id-1'' = Some pending_intent"
    by (simp add: world_of_def pending_intent_def)
  have h2: "status pending_intent = PENDING" "sol_tx_hash pending_intent = None"
    "base_tx_hash pending_intent = None"
    by (simp_all add: pending_intent_def)
  show ?thesis
    using getReceipt_is_projection [of demo_config "''id-1''" "world_of pending_intent" demo_lib pending_intent]
      h1 h2
    by auto
qed

section \<open>The chain pair\<close>

text \<open>
  Claim C10.  Every row written by \<^verbatim>\<open>createIntent\<close> has payer chain
  \<^verbatim>\<open>solana\<close> and target chain \<^verbatim>\<open>base\<close>, whatever the request body holds, and no
  later request changes either column: after any sequence of requests and queued
  callbacks, starting from a table in which every intent has this chain pair (the empty
  table among them), every intent still has it.
\<close>

theorem chain_pair_is_fixed:
  "(fst (post_intents lib uuid now db_now b w) = Inr v \<longrightarrow>
      (\<exists>row. store (snd (post_intents lib uuid now db_now b w)) uuid = Some row \<and>
             payer_chain row = ''solana'' \<and> target_chain row = ''base'')) \<and>
   (chains_fixed w \<longrightarrow> chains_fixed (exec_ops lib cfg xs w)) \<and>
   chains_fixed (exec_ops lib cfg xs empty_world)"
proof (intro conjI impI)
  assume "fst (post_intents lib uuid now db_now b w) = Inr v"
  then show "\<exists>row. store (snd (post_intents lib uuid now db_now b w)) uuid = Some row \<and>
             payer_chain row = ''solana'' \<and> target_chain row = ''base''"
    by (auto simp: post_intents_def createIntent_def db_create_def Let_def
        split: option.splits)
next
  assume "chains_fixed w"
  then show "chains_fixed (exec_ops lib cfg xs w)" by (rule exec_ops_chains_fixed)
next
  have "chains_fixed empty_world" by (simp add: chains_fixed_def empty_world_def)
  then show "chains_fixed (exec_ops lib cfg xs empty_world)" by (rule exec_ops_chains_fixed)
qed

theorem chain_pair_is_fixed_witness:
  "store (exec_ops demo_lib demo_config
       [CreateIntent ''id-1'' 1000 1000 demo_body,
        SubmitSolanaProof 2000 ''id-1'' demo_proof (\<lambda>_. Response 200 (Parsed None True))]
       empty_world) ''id-1'' =
     Some settled_intent \<and>
   payer_chain settled_intent = ''solana'' \<and> target_chain settled_intent = ''base''"
proof -
  let ?xs = "[CreateIntent ''id-1'' 1000 1000 demo_body,
        SubmitSolanaProof 2000 ''id-1'' demo_proof (\<lambda>_. Response 200 (Parsed None True))]"
  have p1: "store (world_of pending_intent) ''id-1'' = Some pending_intent"
    by (simp add: world_of_def pending_intent_def)
  have p2: "status pending_intent = PENDING" by (simp add: pending_intent_def)
  have v: "verifyX402Proof ((\<lambda>_. Response 200 (Parsed None True)) (settle_proof demo_proof)) = Inr ()"
    by (simp add: verifyX402Proof_def response_ok_def)
  have run: "store (exec_ops demo_lib demo_config ?xs empty_world) ''id-1'' = Some settled_intent"
    by (simp add: demo_created submitSolanaProof_accepted [OF p1 p2 v])
       (simp add: settled_intent_def demo_proof_def truthy_def)
  show ?thesis
    using chain_pair_is_fixed [of demo_lib "''id-1''" 1000 1000 demo_body empty_world
        "\<lparr>cv_intent_id = ''id-1'', cv_amount = ''0.05'', cv_merchant_recipient = merchant,
           cv_status = PENDING, cv_created_at = 1000, cv_expires_at = Some 601000\<rparr>" demo_config ?xs]
      run
    unfolding chains_fixed_def by blast
qed

end
